theory Spec2Isabelle
  imports Main
begin

section \<open>The EMX compiler driver of setuptools-os2\<close>

text \<open>
  A shallow embedding of \<^verbatim>\<open>setuptools/_distutils/compilers/C/emx.py\<close>: the class
  \<^verbatim>\<open>Compiler\<close> with its methods \<^verbatim>\<open>_compile\<close>, \<^verbatim>\<open>link\<close>, \<^verbatim>\<open>object_filenames\<close> and
  \<^verbatim>\<open>find_library_file\<close>.

  Python strings are modelled as \<^typ>\<open>string\<close>; \<^verbatim>\<open>ord\<close> of a character is its code
  \<^term>\<open>of_char c :: nat\<close>, so the model covers file names in the Latin-1 range.
\<close>

subsection \<open>Exceptions\<close>

text \<open>
  The subclasses of \<^verbatim>\<open>OSError\<close> that a file operation raises are told apart by their
  errno; every other exception class the module can meet is a constructor of its own.
\<close>

datatype errno = ENOENT | EACCES | EISDIR | EEXIST

datatype exn =
    SyntaxError
  | NameError string
  | IndexError
  | TypeError
  | ValueError
  | OSError errno
  | DistutilsExecError string
  | CompileError string
  | UnknownFileError string
  | LinkError string

fun is_OSError :: "exn \<Rightarrow> bool" where
  "is_OSError (OSError _) = True"
| "is_OSError _ = False"

subsection \<open>The os.path functions\<close>

text \<open>
  Which \<^verbatim>\<open>os.path\<close> flavour is in force depends on the platform Python runs on, so the
  driver's functions take the six functions they call as a parameter.
\<close>

record path_ops =
  os_path_basename :: "string \<Rightarrow> string"
  os_path_dirname :: "string \<Rightarrow> string"
  os_path_splitext :: "string \<Rightarrow> string \<times> string"
  os_path_join :: "string \<Rightarrow> string \<Rightarrow> string"
  os_path_splitdrive :: "string \<Rightarrow> string \<times> string"
  os_path_isabs :: "string \<Rightarrow> bool"

text \<open>
  The concrete evaluations below use \<^verbatim>\<open>posixpath\<close>. \<^verbatim>\<open>rfind_from\<close> is \<^verbatim>\<open>p.rfind(c) + 1\<close>:
  the number of characters up to and including the last \<^verbatim>\<open>c\<close>, or 0 without one.
\<close>

fun rfind_from :: "char \<Rightarrow> string \<Rightarrow> nat" where
  "rfind_from c [] = 0"
| "rfind_from c (x # xs) =
     (let r = rfind_from c xs in
      if r > 0 then Suc r else if x = c then 1 else 0)"

definition rstrip :: "char \<Rightarrow> string \<Rightarrow> string" where
  "rstrip c s = rev (dropWhile (\<lambda>x. x = c) (rev s))"

definition posix_basename :: "string \<Rightarrow> string" where
  "posix_basename p = drop (rfind_from CHR ''/'' p) p"

definition posix_dirname :: "string \<Rightarrow> string" where
  "posix_dirname p =
     (let head = take (rfind_from CHR ''/'' p) p in
      if head \<noteq> [] \<and> head \<noteq> replicate (length head) CHR ''/''
      then rstrip CHR ''/'' head else head)"

text \<open>
  \<^verbatim>\<open>genericpath._splitext\<close>: the extension starts at the last dot after the last
  separator, unless only dots lie between the separator and that dot.
\<close>

definition posix_splitext :: "string \<Rightarrow> string \<times> string" where
  "posix_splitext p =
     (let sepIndex = rfind_from CHR ''/'' p;
          dotIndex = rfind_from CHR ''.'' p
      in if dotIndex > sepIndex
            \<and> list_ex (\<lambda>c. c \<noteq> CHR ''.'') (take (dotIndex - 1 - sepIndex) (drop sepIndex p))
         then (take (dotIndex - 1) p, drop (dotIndex - 1) p)
         else (p, []))"

definition posix_join :: "string \<Rightarrow> string \<Rightarrow> string" where
  "posix_join a b =
     (if take 1 b = ''/'' then b
      else if a = [] \<or> last a = CHR ''/'' then a @ b
      else a @ ''/'' @ b)"

definition posix_splitdrive :: "string \<Rightarrow> string \<times> string" where
  "posix_splitdrive p = ([], p)"

definition posix_isabs :: "string \<Rightarrow> bool" where
  "posix_isabs p = (take 1 p = ''/'')"

definition posixpath :: path_ops where
  "posixpath =
     \<lparr> os_path_basename = posix_basename,
       os_path_dirname = posix_dirname,
       os_path_splitext = posix_splitext,
       os_path_join = posix_join,
       os_path_splitdrive = posix_splitdrive,
       os_path_isabs = posix_isabs \<rparr>"

subsection \<open>find_library_file\<close>

text \<open>\<^verbatim>\<open>str.split(sep)\<close> for a one-character separator: never an empty list.\<close>

fun str_split :: "char \<Rightarrow> string \<Rightarrow> string list" where
  "str_split c [] = [[]]"
| "str_split c (x # xs) =
     (if x = c then [] # str_split c xs
      else (case str_split c xs of
              [] \<Rightarrow> [[x]]
            | w # ws \<Rightarrow> (x # w) # ws))"

definition try_names :: "string \<Rightarrow> string list" where
  "try_names lib =
     [lib @ ''.lib'', lib @ ''.a'', lib @ ''_dll.a'',
      ''lib'' @ lib @ ''.lib'', ''lib'' @ lib @ ''.a'', ''lib'' @ lib @ ''_dll.a'']"

text \<open>
  EMX's default library search path: \<^verbatim>\<open>os.environ['LIBRARY_PATH'].split(';')\<close>, and
  the empty list when the lookup raises \<^verbatim>\<open>KeyError\<close>.
\<close>

definition emx_dirs :: "(string \<rightharpoonup> string) \<Rightarrow> string list" where
  "emx_dirs environ =
     (case environ ''LIBRARY_PATH'' of
        None \<Rightarrow> []
      | Some v \<Rightarrow> str_split CHR '';'' v)"

text \<open>The inner loop over \<^verbatim>\<open>try_names\<close> and the outer loop over the directories.\<close>

fun find_in_dir :: "path_ops \<Rightarrow> (string \<Rightarrow> bool) \<Rightarrow> string \<Rightarrow> string list \<Rightarrow> string option" where
  "find_in_dir P exists dir [] = None"
| "find_in_dir P exists dir (name # names) =
     (let libfile = os_path_join P dir name in
      if exists libfile then Some libfile else find_in_dir P exists dir names)"

fun find_in_dirs :: "path_ops \<Rightarrow> (string \<Rightarrow> bool) \<Rightarrow> string list \<Rightarrow> string list \<Rightarrow> string option" where
  "find_in_dirs P exists [] names = None"
| "find_in_dirs P exists (dir # dirs) names =
     (case find_in_dir P exists dir names of
        Some libfile \<Rightarrow> Some libfile
      | None \<Rightarrow> find_in_dirs P exists dirs names)"

text \<open>
  \<^verbatim>\<open>exists\<close> is \<^verbatim>\<open>os.path.exists\<close> on the file system of the call, \<^verbatim>\<open>environ\<close> is
  \<^verbatim>\<open>os.environ\<close>. The \<^verbatim>\<open>debug\<close> argument is not read.
\<close>

definition find_library_file ::
  "path_ops \<Rightarrow> (string \<Rightarrow> bool) \<Rightarrow> (string \<rightharpoonup> string) \<Rightarrow> string list \<Rightarrow> string \<Rightarrow> string option" where
  "find_library_file P exists environ dirs lib =
     find_in_dirs P exists (dirs @ emx_dirs environ) (try_names lib)"

subsection \<open>The module namespace\<close>

text \<open>
  The global names that the text of \<^verbatim>\<open>emx.py\<close> binds: its imports (lines 7 to 27),
  the class, the three status constants and \<^verbatim>\<open>check_config_h\<close>; then the builtins of
  Python 3 that the methods call. The module uses f-strings and the argument-free
  \<^verbatim>\<open>super()\<close>, so it is Python 3, where \<^verbatim>\<open>reduce\<close> is no builtin.
\<close>

definition emx_globals :: "string list" where
  "emx_globals =
     [''copy'', ''os'', ''pathlib'', ''shlex'', ''sys'', ''warnings'', ''check_output'',
      ''datetime'', ''DistutilsExecError'', ''DistutilsPlatformError'', ''write_file'',
      ''get_config_vars'', ''LooseVersion'', ''suppress_known_deprecation'', ''unix'',
      ''CompileError'', ''Error'', ''Compiler'', ''CONFIG_H_OK'', ''CONFIG_H_NOTOK'',
      ''CONFIG_H_UNCERTAIN'', ''check_config_h'',
      ''len'', ''str'', ''map'', ''ord'', ''super'', ''OSError'']"

text \<open>
  The methods take the namespace \<open>G\<close> they run in as a parameter. Two names they use
  are looked up in it, \<^verbatim>\<open>reduce\<close> (line 93) and \<^verbatim>\<open>UnknownFileError\<close> (line 187); a
  namespace that holds them binds them to \<^verbatim>\<open>functools.reduce\<close> and to the exception class
  of the distutils error module. Using an unbound name raises \<^verbatim>\<open>NameError\<close>.
\<close>

subsection \<open>The compiler object and its environment\<close>

text \<open>
  The attributes of \<^verbatim>\<open>self\<close> that the methods read and that the base class or its
  configuration supplies. The version is a string or \<^verbatim>\<open>None\<close>.
\<close>

record compiler =
  EXECUTABLE :: string
  compiler_so :: "string list"
  src_extensions :: "string list"
  dll_libraries :: "string list"
  version :: "string option"

text \<open>The class attributes that \<^verbatim>\<open>emx.py\<close> sets itself (lines 33 to 43).\<close>

definition rc_extensions :: "string list" where
  "rc_extensions = [''.rc'', ''.RC'']"

definition obj_extension :: string where
  "obj_extension = ''.o''"

definition res_extension :: string where
  "res_extension = ''.res''"

text \<open>
  What \<^verbatim>\<open>link\<close> reads from the operating system: \<^verbatim>\<open>os.environ\<close>, the clock as
  \<^verbatim>\<open>datetime.now().strftime("%d %b %Y %H:%M:%S")\<close>, and the host field of \<^verbatim>\<open>os.uname()\<close>.
\<close>

record os_env =
  os_environ :: "string \<rightharpoonup> string"
  now_strftime :: string
  uname_host :: string

subsection \<open>object_filenames\<close>

text \<open>
  The loop of lines 182 to 197, with \<^verbatim>\<open>obj_names\<close> as accumulator. The \<^verbatim>\<open>raise\<close> of
  line 187 evaluates the name \<^verbatim>\<open>UnknownFileError\<close> before it formats the message.
\<close>

definition unknown_file_message :: "string \<Rightarrow> string \<Rightarrow> string" where
  "unknown_file_message ext src_name =
     ''unknown file type '' @ [CHR 0x27] @ ext @ [CHR 0x27] @ '' (from '' @ [CHR 0x27]
       @ src_name @ [CHR 0x27] @ '')''"

fun object_filenames_loop ::
  "string list \<Rightarrow> path_ops \<Rightarrow> compiler \<Rightarrow> bool \<Rightarrow> string \<Rightarrow> string list \<Rightarrow> string list
     \<Rightarrow> exn + string list" where
  "object_filenames_loop G P self strip_dir out_dir [] obj_names = Inr obj_names"
| "object_filenames_loop G P self strip_dir out_dir (src_name # rest) obj_names =
     (let base = fst (os_path_splitext P src_name);
          ext = snd (os_path_splitext P src_name);
          base = snd (os_path_splitdrive P base);
          base = drop (if os_path_isabs P base then 1 else 0) base
      in if ext \<notin> set (src_extensions self @ rc_extensions) then
           (if ''UnknownFileError'' \<in> set G
            then Inl (UnknownFileError (unknown_file_message ext src_name))
            else Inl (NameError ''UnknownFileError''))
         else
           (let base = (if strip_dir then os_path_basename P base else base) in
            if ext \<in> set rc_extensions
            then object_filenames_loop G P self strip_dir out_dir rest
                   (obj_names @ [os_path_join P out_dir (base @ res_extension)])
            else object_filenames_loop G P self strip_dir out_dir rest
                   (obj_names @ [os_path_join P out_dir (base @ obj_extension)])))"

definition object_filenames ::
  "string list \<Rightarrow> path_ops \<Rightarrow> compiler \<Rightarrow> string list \<Rightarrow> bool \<Rightarrow> string option
     \<Rightarrow> exn + string list" where
  "object_filenames G P self source_filenames strip_dir out_dir =
     object_filenames_loop G P self strip_dir
       (case out_dir of None \<Rightarrow> [] | Some d \<Rightarrow> d) source_filenames []"

subsection \<open>Lists on the heap, external actions, and the state of a call\<close>

text \<open>
  \<^verbatim>\<open>link\<close> receives list objects by reference and appends to lists, so lists live in a
  heap: a reference is an index into it, and a new list takes the next free index.
  Every call that leaves the module (\<^verbatim>\<open>self.spawn\<close>, \<^verbatim>\<open>self.execute\<close>, the base class's
  \<^verbatim>\<open>link\<close>, \<^verbatim>\<open>os.remove\<close>, \<^verbatim>\<open>os.symlink\<close>) is recorded in a trace in the order it is made.
\<close>

type_synonym ref = nat

text \<open>The thirteen arguments that line 160 hands to \<^verbatim>\<open>super().link\<close>.\<close>

record base_call =
  bc_target_desc :: string
  bc_objects :: ref
  bc_output_filename :: string
  bc_output_dir :: "string option"
  bc_libraries :: ref
  bc_library_dirs :: "string list option"
  bc_runtime_library_dirs :: "string list option"
  bc_export_symbols :: "string list option"
  bc_debug :: bool
  bc_extra_preargs :: ref
  bc_extra_postargs :: "string list option"
  bc_build_temp :: "string option"
  bc_target_lang :: "string option"

text \<open>
  \<open>Base_link\<close> also keeps the contents that the three working lists have at the moment
  of the call: objects, libraries, extra pre-arguments.
\<close>

datatype action =
    Spawn "string list"
  | Write_file string "string list"
  | Base_link base_call "string list" "string list" "string list"
  | Remove string
  | Symlink string string

fun is_Write_file :: "action \<Rightarrow> bool" where
  "is_Write_file (Write_file _ _) = True"
| "is_Write_file _ = False"

text \<open>The object list that an action hands to the base class's link, if it is such a call.\<close>

fun linked_objects :: "action \<Rightarrow> string list list" where
  "linked_objects (Base_link c os ls ps) = [os]"
| "linked_objects _ = []"

record world =
  heap :: "string list list"
  trace :: "action list"

text \<open>
  How the outside answers: for each external call the exception it raises, if any; the
  base class's \<^verbatim>\<open>link\<close> may also write to the heap.
\<close>

record externals =
  x_spawn :: "world \<Rightarrow> string list \<Rightarrow> exn option"
  x_execute :: "world \<Rightarrow> string \<Rightarrow> string list \<Rightarrow> exn option"
  x_base_link :: "world \<Rightarrow> base_call \<Rightarrow> exn option \<times> string list list"
  x_remove :: "world \<Rightarrow> string \<Rightarrow> exn option"
  x_symlink :: "world \<Rightarrow> string \<Rightarrow> string \<Rightarrow> exn option"

text \<open>
  A statement sequence maps the state to an outcome, an exception or a value, and the
  state it leaves; the state survives an exception.
\<close>

type_synonym 'a prog = "world \<Rightarrow> (exn + 'a) \<times> world"

definition ret :: "'a \<Rightarrow> 'a prog" where
  "ret x = (\<lambda>w. (Inr x, w))"

definition lift_exn :: "exn + 'a \<Rightarrow> 'a prog" where
  "lift_exn r = (\<lambda>w. (r, w))"

definition then_do :: "'a prog \<Rightarrow> ('a \<Rightarrow> 'b prog) \<Rightarrow> 'b prog" where
  "then_do m f =
     (\<lambda>w. case m w of
             (Inl e, w') \<Rightarrow> (Inl e, w')
           | (Inr x, w') \<Rightarrow> f x w')"

definition answer :: "exn option \<Rightarrow> world \<Rightarrow> (exn + unit) \<times> world" where
  "answer r w = (case r of None \<Rightarrow> (Inr (), w) | Some e \<Rightarrow> (Inl e, w))"

definition log :: "action \<Rightarrow> world \<Rightarrow> world" where
  "log a w = w\<lparr>trace := trace w @ [a]\<rparr>"

definition spawn :: "externals \<Rightarrow> string list \<Rightarrow> unit prog" where
  "spawn X argv = (\<lambda>w. answer (x_spawn X w argv) (log (Spawn argv) w))"

definition execute_write_file :: "externals \<Rightarrow> string \<Rightarrow> string list \<Rightarrow> unit prog" where
  "execute_write_file X name contents =
     (\<lambda>w. answer (x_execute X w name contents) (log (Write_file name contents) w))"

definition os_remove :: "externals \<Rightarrow> string \<Rightarrow> unit prog" where
  "os_remove X path = (\<lambda>w. answer (x_remove X w path) (log (Remove path) w))"

definition os_symlink :: "externals \<Rightarrow> string \<Rightarrow> string \<Rightarrow> unit prog" where
  "os_symlink X src dst = (\<lambda>w. answer (x_symlink X w src dst) (log (Symlink src dst) w))"

definition super_link :: "externals \<Rightarrow> base_call \<Rightarrow> unit prog" where
  "super_link X c =
     (\<lambda>w. answer (fst (x_base_link X w c))
            ((log (Base_link c (heap w ! bc_objects c) (heap w ! bc_libraries c)
                     (heap w ! bc_extra_preargs c)) w)
             \<lparr>heap := snd (x_base_link X w c)\<rparr>))"

text \<open>
  \<^verbatim>\<open>copy.copy(x or [])\<close>: a new list object. \<^verbatim>\<open>x or []\<close> is \<open>x\<close> unless \<open>x\<close> is
  \<^verbatim>\<open>None\<close> or empty, and in both of these cases the copy is empty.
\<close>

definition copy_or_empty :: "ref option \<Rightarrow> ref prog" where
  "copy_or_empty x =
     (\<lambda>w. (Inr (length (heap w)),
            w\<lparr>heap := heap w @ [case x of None \<Rightarrow> [] | Some r \<Rightarrow> heap w ! r]\<rparr>))"

definition list_extend :: "ref \<Rightarrow> string list \<Rightarrow> unit prog" where
  "list_extend r xs = (\<lambda>w. (Inr (), w\<lparr>heap := (heap w)[r := heap w ! r @ xs]\<rparr>))"

definition list_append :: "ref \<Rightarrow> string \<Rightarrow> unit prog" where
  "list_append r x = list_extend r [x]"

text \<open>\<^verbatim>\<open>xs[0]\<close> raises \<^verbatim>\<open>IndexError\<close> on the empty list.\<close>

definition list_first :: "ref \<Rightarrow> string prog" where
  "list_first r =
     (\<lambda>w. case heap w ! r of
             [] \<Rightarrow> (Inl IndexError, w)
           | x # _ \<Rightarrow> (Inr x, w))"

subsection \<open>_compile\<close>

text \<open>
  Lines 60 to 73. Both branches turn a \<^verbatim>\<open>DistutilsExecError\<close> of \<^verbatim>\<open>self.spawn\<close> into a
  \<^verbatim>\<open>CompileError\<close> with the same message. The argument \<^verbatim>\<open>pp_opts\<close> is not read.
\<close>

definition except_DistutilsExecError :: "unit prog \<Rightarrow> unit prog" where
  "except_DistutilsExecError m =
     (\<lambda>w. case m w of
             (Inl (DistutilsExecError msg), w') \<Rightarrow> (Inl (CompileError msg), w')
           | other \<Rightarrow> other)"

definition compile ::
  "externals \<Rightarrow> compiler \<Rightarrow> string \<Rightarrow> string \<Rightarrow> string \<Rightarrow> string list \<Rightarrow> string list
     \<Rightarrow> string list \<Rightarrow> unit prog" where
  "compile X self obj src ext cc_args extra_postargs pp_opts =
     (if ext = ''.rc''
      then except_DistutilsExecError (spawn X [''rc'', ''-r'', src])
      else except_DistutilsExecError
             (spawn X (compiler_so self @ cc_args @ [src, ''-o'', obj] @ extra_postargs)))"

subsection \<open>link\<close>

text \<open>The arguments of \<^verbatim>\<open>link\<close> (lines 75 to 78); a list that \<^verbatim>\<open>link\<close> copies is a reference.\<close>

record link_request =
  target_desc :: string
  objects :: "ref option"
  output_filename :: string
  output_dir :: "string option"
  libraries :: "ref option"
  library_dirs :: "string list option"
  runtime_library_dirs :: "string list option"
  export_symbols :: "string list option"
  debug :: bool
  extra_preargs :: "ref option"
  extra_postargs :: "string list option"
  build_temp :: "string option"
  target_lang :: "string option"

text \<open>
  Lines 80 to 86: the three copies, in the order the source makes them, and the
  additional libraries. The result is the triple of the new references
  (\<^verbatim>\<open>extra_preargs\<close>, \<^verbatim>\<open>libraries\<close>, \<^verbatim>\<open>objects\<close>).
\<close>

definition link_prepare :: "compiler \<Rightarrow> link_request \<Rightarrow> (ref \<times> ref \<times> ref) prog" where
  "link_prepare self rq =
     then_do (copy_or_empty (extra_preargs rq)) (\<lambda>pre.
     then_do (copy_or_empty (libraries rq)) (\<lambda>libs.
     then_do (copy_or_empty (objects rq)) (\<lambda>objs.
     then_do (list_extend libs (dll_libraries self)) (\<lambda>_.
     ret (pre, libs, objs)))))"

text \<open>\<^verbatim>\<open>str\<close> of a natural number: its decimal digits.\<close>

fun str_nat :: "nat \<Rightarrow> string" where
  "str_nat n =
     (if n < 10 then [char_of (48 + n)]
      else str_nat (n div 10) @ [char_of (48 + n mod 10)])"

declare str_nat.simps [simp del]

text \<open>
  \<^verbatim>\<open>functools.reduce(lambda x,y:x+y, seq)\<close> without an initial value: the left fold
  from the first element, and \<^verbatim>\<open>TypeError\<close> on the empty sequence.
\<close>

definition reduce_add :: "nat list \<Rightarrow> exn + nat" where
  "reduce_add xs = (case xs of [] \<Rightarrow> Inl TypeError | x # rest \<Rightarrow> Inr (foldl (+) x rest))"

text \<open>
  Lines 88 to 95. The result is (\<^verbatim>\<open>dll_name\<close>, \<^verbatim>\<open>dll_extension\<close>, \<^verbatim>\<open>dll_name8\<close>). In line 93
  the left operand of \<^verbatim>\<open>+\<close> is evaluated first and cannot fail; then \<^verbatim>\<open>reduce\<close> is
  looked up.
\<close>

definition link_short_name ::
  "string list \<Rightarrow> path_ops \<Rightarrow> string \<Rightarrow> exn + (string \<times> string \<times> string)" where
  "link_short_name G P out_name =
     (let dll_name = fst (os_path_splitext P (os_path_basename P out_name));
          dll_extension = snd (os_path_splitext P (os_path_basename P out_name))
      in if length dll_name > 8 then
           (if ''reduce'' \<in> set G then
              (case reduce_add (map of_char out_name) of
                 Inl e \<Rightarrow> Inl e
               | Inr checksum \<Rightarrow>
                   Inr (dll_name, dll_extension,
                        take 3 (os_path_basename P out_name) @ str_nat (checksum mod 65536)))
            else Inl (NameError ''reduce''))
         else Inr (dll_name, dll_extension, dll_name))"

text \<open>
  Lines 118 to 139: the lines of the definition file. A vendor or version that is
  \<^verbatim>\<open>None\<close> or empty is falsy and gives way to the default. The \<^verbatim>\<open>for\<close> loop appends
  one line per symbol.
\<close>

definition truthy_or :: "string option \<Rightarrow> string \<Rightarrow> string" where
  "truthy_or v dflt = (case v of None \<Rightarrow> dflt | Some s \<Rightarrow> if s = [] then dflt else s)"

fun append_symbols :: "string list \<Rightarrow> string list \<Rightarrow> string list" where
  "append_symbols contents [] = contents"
| "append_symbols contents (symbol # symbols) =
     append_symbols (contents @ [''  '' @ [CHR 0x22] @ ''_'' @ symbol @ [CHR 0x22]]) symbols"

definition def_file_contents ::
  "os_env \<Rightarrow> compiler \<Rightarrow> string \<Rightarrow> string \<Rightarrow> string list \<Rightarrow> string list" where
  "def_file_contents E self dll_name dll_name8 symbols =
     (let vendor = truthy_or (os_environ E ''VENDOR'') ''python build system'';
          date_time = now_strftime E;
          version = truthy_or (version self) ''0.0'';
          host = uname_host E;
          contents =
            [''LIBRARY '' @ dll_name8 @ '' INITINSTANCE TERMINSTANCE'',
             ''DESCRIPTION '' @ [CHR 0x22] @ ''@#'' @ vendor @ '':'' @ version @ ''#@##1## ''
               @ date_time @ ''     '' @ host @ ''::::0::@@'' @ dll_name @ [CHR 0x22],
             ''DATA MULTIPLE NONSHARED'',
             ''EXPORTS'']
      in append_symbols contents symbols)"

text \<open>
  Lines 103 and 104, the header of the \<^verbatim>\<open>if\<close> statement that decides on the definition
  file, token by token. Python reads on across the line break inside the open bracket,
  and the header must reach its colon with every bracket closed.
\<close>

definition guard_header :: "string list" where
  "guard_header =
     [''if'', ''('', ''export_symbols'', ''is'', ''not'', ''None'', ''and'',
      ''('', ''target_desc'', ''!='', ''self'', ''.'', ''EXECUTABLE'', '')'', '':'']"

text \<open>
  The number of brackets that are open after the tokens, from \<open>d\<close> open ones;
  \<^term>\<open>None\<close> when a bracket closes that was not opened.
\<close>

fun open_brackets :: "string list \<Rightarrow> nat \<Rightarrow> nat option" where
  "open_brackets [] d = Some d"
| "open_brackets (t # ts) d =
     (if t = ''('' then open_brackets ts (Suc d)
      else if t = '')'' then (case d of 0 \<Rightarrow> None | Suc d' \<Rightarrow> open_brackets ts d')
      else open_brackets ts d)"

text \<open>
  Loading the module as it is shipped: Python compiles the whole file before it runs any
  of it, and raises \<^verbatim>\<open>SyntaxError\<close> for a header whose brackets do not balance.
\<close>

definition import_emx :: "exn + unit" where
  "import_emx = (if open_brackets guard_header 0 = Some 0 then Inr () else Inl SyntaxError)"

text \<open>
  Lines 101 to 146. The text of lines 103 and 104 gives the condition no value, so the
  statements of \<^verbatim>\<open>link\<close> are modelled for either: \<open>guard\<close> is the value of the condition in
  the call, whatever repair of the header produces it. Inside the branch, line 113 indexes
  the objects, and the loop of line 138 raises \<^verbatim>\<open>TypeError\<close> if the export symbols are
  \<^verbatim>\<open>None\<close>, before line 140 writes.
\<close>

definition link_def_file ::
  "bool \<Rightarrow> path_ops \<Rightarrow> externals \<Rightarrow> os_env \<Rightarrow> compiler \<Rightarrow> link_request \<Rightarrow> string \<Rightarrow> string
     \<Rightarrow> ref \<Rightarrow> unit prog" where
  "link_def_file guard P X E self rq dll_name dll_name8 objs =
     (if guard then
        then_do (list_first objs) (\<lambda>first.
        let temp_dir = os_path_dirname P first;
            def_file = os_path_join P temp_dir (dll_name @ ''.def'')
        in case export_symbols rq of
             None \<Rightarrow> lift_exn (Inl TypeError)
           | Some symbols \<Rightarrow>
               then_do (execute_write_file X def_file
                          (def_file_contents E self dll_name dll_name8 symbols))
                 (\<lambda>_. list_append objs def_file))
      else ret ())"

text \<open>
  Lines 167 to 173: \<^verbatim>\<open>except OSError: pass\<close> around the removal, then the symlink.
\<close>

definition except_OSError_pass :: "unit prog \<Rightarrow> unit prog" where
  "except_OSError_pass m =
     (\<lambda>w. case m w of
             (Inl e, w') \<Rightarrow> if is_OSError e then (Inr (), w') else (Inl e, w')
           | (Inr u, w') \<Rightarrow> (Inr u, w'))"

definition link_alias ::
  "externals \<Rightarrow> string \<Rightarrow> string \<Rightarrow> string \<Rightarrow> string \<Rightarrow> unit prog" where
  "link_alias X dll_name dll_extension dll_name8 out_name =
     (if length dll_name > 8 then
        then_do (except_OSError_pass (os_remove X out_name)) (\<lambda>_.
        os_symlink X (dll_name8 @ dll_extension) out_name)
      else ret ())"

text \<open>
  Lines 97 to 99 and 160 to 165: the output path under the short name, and the arguments
  of the call to the base class, which gets \<^verbatim>\<open>None\<close> for the export symbols.
\<close>

definition link_base_call ::
  "path_ops \<Rightarrow> link_request \<Rightarrow> ref \<Rightarrow> ref \<Rightarrow> ref \<Rightarrow> string \<Rightarrow> string \<Rightarrow> base_call" where
  "link_base_call P rq pre libs objs dll_extension dll_name8 =
     (let dll_namefull = os_path_join P (os_path_dirname P (output_filename rq))
                           (dll_name8 @ dll_extension)
      in \<lparr> bc_target_desc = target_desc rq,
           bc_objects = objs,
           bc_output_filename = dll_namefull,
           bc_output_dir = output_dir rq,
           bc_libraries = libs,
           bc_library_dirs = library_dirs rq,
           bc_runtime_library_dirs = runtime_library_dirs rq,
           bc_export_symbols = None,
           bc_debug = debug rq,
           bc_extra_preargs = pre,
           bc_extra_postargs = extra_postargs rq,
           bc_build_temp = build_temp rq,
           bc_target_lang = target_lang rq \<rparr>)"

text \<open>Lines 151 to 173: the strip flag, the base class's link, the alias.\<close>

definition link_finish ::
  "path_ops \<Rightarrow> externals \<Rightarrow> link_request \<Rightarrow> ref \<Rightarrow> ref \<Rightarrow> ref \<Rightarrow> string \<Rightarrow> string \<Rightarrow> string
     \<Rightarrow> unit prog" where
  "link_finish P X rq pre libs objs dll_name dll_extension dll_name8 =
     then_do (if \<not> debug rq then list_append pre ''-s'' else ret ()) (\<lambda>_.
     then_do (super_link X (link_base_call P rq pre libs objs dll_extension dll_name8)) (\<lambda>_.
     link_alias X dll_name dll_extension dll_name8 (output_filename rq)))"

text \<open>
  The statements of \<^verbatim>\<open>link\<close>, lines 75 to 173, for a value \<open>guard\<close> of the condition
  of lines 103 and 104.
\<close>

definition link ::
  "bool \<Rightarrow> string list \<Rightarrow> path_ops \<Rightarrow> externals \<Rightarrow> os_env \<Rightarrow> compiler \<Rightarrow> link_request
     \<Rightarrow> unit prog" where
  "link guard G P X E self rq =
     then_do (link_prepare self rq) (\<lambda>(pre, libs, objs).
     then_do (lift_exn (link_short_name G P (output_filename rq)))
       (\<lambda>(dll_name, dll_extension, dll_name8).
     then_do (link_def_file guard P X E self rq dll_name dll_name8 objs) (\<lambda>_.
     link_finish P X rq pre libs objs dll_name dll_extension dll_name8)))"

subsection \<open>Reading a call's arguments and its trace\<close>

text \<open>
  The contents of a list argument as the caller passed it, whether the reference is one
  of the heap, and the actions that a run has added to the trace.
\<close>

definition caller_list :: "world \<Rightarrow> ref option \<Rightarrow> string list" where
  "caller_list w x = (case x of None \<Rightarrow> [] | Some r \<Rightarrow> heap w ! r)"

definition valid_ref :: "world \<Rightarrow> ref option \<Rightarrow> bool" where
  "valid_ref w x = (case x of None \<Rightarrow> True | Some r \<Rightarrow> r < length (heap w))"

definition actions_since :: "world \<Rightarrow> world \<Rightarrow> action list" where
  "actions_since w w' = drop (length (trace w)) (trace w')"

text \<open>The state after lines 80 to 86.\<close>

definition prepared :: "compiler \<Rightarrow> link_request \<Rightarrow> world \<Rightarrow> world" where
  "prepared self rq w =
     w\<lparr>heap := heap w @ [caller_list w (extra_preargs rq),
                           caller_list w (libraries rq) @ dll_libraries self,
                           caller_list w (objects rq)]\<rparr>"

subsection \<open>Concrete instances for evaluation\<close>

text \<open>
  A compiler object with the source extensions of the Unix compiler class, an outside
  in which every external call succeeds, and the empty state.
\<close>

definition unix_compiler :: compiler where
  "unix_compiler =
     \<lparr> EXECUTABLE = ''executable'',
       compiler_so = [''gcc'', ''-c''],
       src_extensions = [''.c'', ''.C'', ''.cc'', ''.cxx'', ''.cpp'', ''.m''],
       dll_libraries = [],
       version = None \<rparr>"

definition quiet :: externals where
  "quiet =
     \<lparr> x_spawn = (\<lambda>w argv. None),
       x_execute = (\<lambda>w name contents. None),
       x_base_link = (\<lambda>w c. (None, heap w)),
       x_remove = (\<lambda>w path. None),
       x_symlink = (\<lambda>w src dst. None) \<rparr>"

definition empty_world :: world where
  "empty_world = \<lparr> heap = [], trace = [] \<rparr>"

definition sample_env :: os_env where
  "sample_env =
     \<lparr> os_environ = Map.empty, now_strftime = ''04 Nov 2026 12:00:00'', uname_host = ''warp'' \<rparr>"

text \<open>A caller that holds three lists and asks for a shared library with one export.\<close>

definition sample_world :: world where
  "sample_world = \<lparr> heap = [[''build/a.o'', ''build/b.o''], [''m''], [''-v'']], trace = [] \<rparr>"

definition sample_request :: link_request where
  "sample_request =
     \<lparr> target_desc = ''shared_object'',
       objects = Some 0,
       output_filename = ''build/short.dll'',
       output_dir = None,
       libraries = Some 1,
       library_dirs = None,
       runtime_library_dirs = None,
       export_symbols = Some [''initshort''],
       debug = False,
       extra_preargs = Some 2,
       extra_postargs = None,
       build_temp = None,
       target_lang = None \<rparr>"

text \<open>
  The same request for an output stem of 12 characters, and that request with no objects.
\<close>

definition long_request :: link_request where
  "long_request = sample_request \<lparr> output_filename := ''build/verylongname.dll'' \<rparr>"

definition long_request_no_objects :: link_request where
  "long_request_no_objects = long_request \<lparr> objects := None \<rparr>"

text \<open>
  A base class whose link appends a start-up object to the object list it is handed; an
  outside where the removal is refused and the symlink succeeds; one where the removal
  raises \<^verbatim>\<open>ValueError\<close>, as \<^verbatim>\<open>os.remove\<close> does for a path with a null character; one
  where the removal is refused and the symlink then finds the file in place.
\<close>

definition appending_linker :: externals where
  "appending_linker =
     quiet \<lparr> x_base_link :=
       (\<lambda>w c. (None, (heap w)[bc_objects c := heap w ! bc_objects c @ [''crt0.o'']])) \<rparr>"

definition denied :: externals where
  "denied = quiet \<lparr> x_remove := (\<lambda>w path. Some (OSError EACCES)) \<rparr>"

definition null_byte :: externals where
  "null_byte = quiet \<lparr> x_remove := (\<lambda>w path. Some ValueError) \<rparr>"

definition in_use :: externals where
  "in_use = quiet \<lparr> x_remove := (\<lambda>w path. Some (OSError EACCES)),
                     x_symlink := (\<lambda>w src dst. Some (OSError EEXIST)) \<rparr>"

section \<open>Library resolution\<close>

lemma find_in_dir_find:
  "find_in_dir P exists dir names = List.find exists (map (os_path_join P dir) names)"
  by (induction names) simp_all

lemma find_append:
  "List.find Q (xs @ ys) = (case List.find Q xs of Some x \<Rightarrow> Some x | None \<Rightarrow> List.find Q ys)"
  by (induction xs) simp_all

lemma find_in_dirs_find:
  "find_in_dirs P exists dirs names =
     List.find exists (concat (map (\<lambda>dir. map (os_path_join P dir) names) dirs))"
  by (induction dirs) (simp_all add: find_in_dir_find find_append split: option.splits)

text \<open>
  C4. The result of \<^verbatim>\<open>find_library_file\<close> is the first existing path of the candidate
  list that runs through the caller's directories followed by the entries of the
  semicolon-split \<^verbatim>\<open>LIBRARY_PATH\<close>, and within each directory through the six variants
  \<^verbatim>\<open><lib>.lib\<close>, \<^verbatim>\<open><lib>.a\<close>, \<^verbatim>\<open><lib>_dll.a\<close>, \<^verbatim>\<open>lib<lib>.lib\<close>, \<^verbatim>\<open>lib<lib>.a\<close>, \<^verbatim>\<open>lib<lib>_dll.a\<close>
  in this order, one directory being exhausted before the next; the result is
  \<^term>\<open>None\<close>, not an error, exactly when no candidate exists.
\<close>

theorem find_library_file_first_match:
  fixes P exists environ dirs lib
  defines "search_dirs \<equiv>
     dirs @ (case environ ''LIBRARY_PATH'' of None \<Rightarrow> [] | Some v \<Rightarrow> str_split CHR '';'' v)"
  defines "candidates \<equiv>
     concat (map (\<lambda>dir.
       [os_path_join P dir (lib @ ''.lib''),
        os_path_join P dir (lib @ ''.a''),
        os_path_join P dir (lib @ ''_dll.a''),
        os_path_join P dir (''lib'' @ lib @ ''.lib''),
        os_path_join P dir (''lib'' @ lib @ ''.a''),
        os_path_join P dir (''lib'' @ lib @ ''_dll.a'')]) search_dirs)"
  shows "find_library_file P exists environ dirs lib = List.find exists candidates
       \<and> (find_library_file P exists environ dirs lib = None
            \<longleftrightarrow> \<not> list_ex exists candidates)"
proof -
  have eq: "find_library_file P exists environ dirs lib = List.find exists candidates"
    unfolding find_library_file_def find_in_dirs_find candidates_def search_dirs_def
      emx_dirs_def try_names_def
    by simp
  have "List.find exists candidates = None \<longleftrightarrow> \<not> list_ex exists candidates"
    by (auto simp: find_None_iff list_ex_iff)
  with eq show ?thesis by simp
qed

text \<open>
  With \<^verbatim>\<open>libm.a\<close> in the second directory of \<^verbatim>\<open>LIBRARY_PATH\<close> and \<^verbatim>\<open>m_dll.a\<close> in its
  first, the search for \<^verbatim>\<open>m\<close> ends in the first.
\<close>

theorem find_library_file_first_match_witness:
  "find_library_file posixpath (\<lambda>p. p = ''/usr/lib/libm.a'' \<or> p = ''/emx/lib/m_dll.a'')
     [''LIBRARY_PATH'' \<mapsto> ''/emx/lib;/usr/lib''] [''/opt''] ''m'' = Some ''/emx/lib/m_dll.a''"
  using find_library_file_first_match [of posixpath
      "\<lambda>p. p = ''/usr/lib/libm.a'' \<or> p = ''/emx/lib/m_dll.a''"
      "[''LIBRARY_PATH'' \<mapsto> ''/emx/lib;/usr/lib'']" "[''/opt'']" "''m''"]
  by (simp add: posixpath_def posix_join_def)

section \<open>Compile dispatch\<close>

text \<open>What \<^verbatim>\<open>_compile\<close> spawns: the test of line 62 is on the one extension \<^verbatim>\<open>.rc\<close>.\<close>

lemma compile_rc:
  "trace (snd (compile X self obj src ''.rc'' cc_args postargs pp_opts w)) =
     trace w @ [Spawn [''rc'', ''-r'', src]]"
  by (simp add: compile_def except_DistutilsExecError_def spawn_def answer_def log_def
      split: option.splits exn.splits)

lemma compile_other:
  "ext \<noteq> ''.rc'' \<Longrightarrow>
   trace (snd (compile X self obj src ext cc_args postargs pp_opts w)) =
     trace w @ [Spawn (compiler_so self @ cc_args @ [src, ''-o'', obj] @ postargs)]"
  by (simp add: compile_def except_DistutilsExecError_def spawn_def answer_def log_def
      split: option.splits exn.splits)

text \<open>
  C3. The claim asks that every source whose extension is in \<^verbatim>\<open>_rc_extensions\<close>, which
  holds \<^verbatim>\<open>.rc\<close> and \<^verbatim>\<open>.RC\<close>, goes to the resource compiler. \<^verbatim>\<open>object_filenames\<close> does plan
  a \<^verbatim>\<open>.res\<close> file for \<^verbatim>\<open>WIDGET.RC\<close>, but \<^verbatim>\<open>_compile\<close> hands that source to the C
  compiler, with the \<^verbatim>\<open>.res\<close> name as its \<^verbatim>\<open>-o\<close> target.
\<close>

theorem compile_upper_case_rc_runs_gcc:
  "''.RC'' \<in> set rc_extensions
   \<and> object_filenames emx_globals posixpath unix_compiler [''WIDGET.RC''] False None
       = Inr [''WIDGET.res'']
   \<and> compile quiet unix_compiler ''WIDGET.res'' ''WIDGET.RC'' ''.RC'' [] [] [] empty_world =
       (Inr (), \<lparr> heap = [],
                  trace = [Spawn [''gcc'', ''-c'', ''WIDGET.RC'', ''-o'', ''WIDGET.res'']] \<rparr>)"
  by (simp add: rc_extensions_def object_filenames_def posixpath_def posix_splitext_def
      posix_splitdrive_def posix_isabs_def posix_join_def unix_compiler_def res_extension_def
      Let_def compile_def except_DistutilsExecError_def spawn_def answer_def log_def quiet_def
      empty_world_def)

section \<open>Object file names\<close>

text \<open>
  A source with an extension outside \<^verbatim>\<open>src_extensions + _rc_extensions\<close> makes the call
  fail, in every namespace: no list of names comes back.
\<close>

lemma object_filenames_loop_Inr:
  "object_filenames_loop G P self strip_dir out_dir srcs acc = Inr names \<Longrightarrow>
   \<forall>src \<in> set srcs. snd (os_path_splitext P src) \<in> set (src_extensions self @ rc_extensions)"
  by (induction srcs arbitrary: acc) (auto simp: Let_def split: if_splits)

lemma object_filenames_unknown_fails:
  assumes "src \<in> set source_filenames"
    and "snd (os_path_splitext P src) \<notin> set (src_extensions self @ rc_extensions)"
  shows "\<exists>e. object_filenames G P self source_filenames strip_dir out_dir = Inl e"
proof (cases "object_filenames G P self source_filenames strip_dir out_dir")
  case (Inl e)
  then show ?thesis by blast
next
  case (Inr names)
  with assms show ?thesis
    unfolding object_filenames_def by (blast dest: object_filenames_loop_Inr)
qed

text \<open>Which exception it is depends on whether line 187 finds its exception class.\<close>

lemma object_filenames_single_unknown:
  "snd (os_path_splitext P src) \<notin> set (src_extensions self @ rc_extensions) \<Longrightarrow>
   object_filenames G P self [src] strip_dir out_dir =
     (if ''UnknownFileError'' \<in> set G
      then Inl (UnknownFileError (unknown_file_message (snd (os_path_splitext P src)) src))
      else Inl (NameError ''UnknownFileError''))"
  by (simp add: object_filenames_def Let_def)

text \<open>
  C5. The claim asks for an unknown-file error that names the extension and the source.
  The module imports \<^verbatim>\<open>CompileError\<close> and \<^verbatim>\<open>Error\<close> only, so for \<^verbatim>\<open>foo.xyz\<close> line 187
  raises \<^verbatim>\<open>NameError\<close> for the name \<^verbatim>\<open>UnknownFileError\<close>, which carries neither.
\<close>

theorem object_filenames_unknown_name_error:
  "object_filenames emx_globals posixpath unix_compiler [''foo.xyz''] False None
     = Inl (NameError ''UnknownFileError'')"
  by (simp add: object_filenames_def posixpath_def posix_splitext_def unix_compiler_def
      rc_extensions_def Let_def emx_globals_def)

section \<open>Short names\<close>

lemma str_nat_length: "0 < k \<Longrightarrow> n < 10 ^ k \<Longrightarrow> length (str_nat n) \<le> k"
proof (induction k arbitrary: n)
  case 0
  then show ?case by simp
next
  case (Suc k)
  show ?case
  proof (cases "n < 10")
    case True
    then show ?thesis by (simp add: str_nat.simps [of n])
  next
    case False
    with Suc.prems have k: "0 < k" by (cases k) auto
    from Suc.prems have "n div 10 < 10 ^ k"
      by (simp add: less_mult_imp_div_less mult.commute)
    with k Suc.IH have "length (str_nat (n div 10)) \<le> k" by blast
    with False show ?thesis by (simp add: str_nat.simps [of n])
  qed
qed

lemma foldl_add_sum: "foldl (+) (x::nat) xs = x + sum_list xs"
  by (induction xs arbitrary: x) simp_all

lemma reduce_add_sum: "xs \<noteq> [] \<Longrightarrow> reduce_add xs = Inr (sum_list xs)"
  by (cases xs) (simp_all add: reduce_add_def foldl_add_sum)

text \<open>A stem of at most 8 characters is kept, in every namespace.\<close>

lemma link_short_name_short_stem:
  "length (fst (os_path_splitext P (os_path_basename P out_name))) \<le> 8 \<Longrightarrow>
   link_short_name G P out_name =
     Inr (fst (os_path_splitext P (os_path_basename P out_name)),
          snd (os_path_splitext P (os_path_basename P out_name)),
          fst (os_path_splitext P (os_path_basename P out_name)))"
  by (simp add: link_short_name_def Let_def)

text \<open>A longer stem: line 93 fails where \<^verbatim>\<open>reduce\<close> is unbound \<dots>\<close>

lemma link_short_name_unbound:
  "length (fst (os_path_splitext P (os_path_basename P out_name))) > 8 \<Longrightarrow>
   ''reduce'' \<notin> set G \<Longrightarrow>
   link_short_name G P out_name = Inl (NameError ''reduce'')"
  by (simp add: link_short_name_def Let_def)

text \<open>\<dots> and computes the hashed name where it is bound.\<close>

lemma link_short_name_bound:
  "length (fst (os_path_splitext P (os_path_basename P out_name))) > 8 \<Longrightarrow>
   ''reduce'' \<in> set G \<Longrightarrow> out_name \<noteq> [] \<Longrightarrow>
   link_short_name G P out_name =
     Inr (fst (os_path_splitext P (os_path_basename P out_name)),
          snd (os_path_splitext P (os_path_basename P out_name)),
          take 3 (os_path_basename P out_name)
            @ str_nat (sum_list (map of_char out_name) mod 65536))"
  by (simp add: link_short_name_def Let_def reduce_add_sum)

text \<open>Whatever the namespace, a short name that is derived has at most 8 characters.\<close>

lemma link_short_name_length:
  assumes "link_short_name G P out_name = Inr (dll_name, dll_extension, dll_name8)"
  shows "length dll_name8 \<le> 8"
proof -
  have "length (str_nat (c mod 65536)) \<le> 5" for c
    by (rule str_nat_length) simp_all
  then have "length (take 3 b @ str_nat (c mod 65536)) \<le> 8" for b :: string and c
    using le_trans [OF add_mono [of "length (take 3 b)" 3 "length (str_nat (c mod 65536))" 5]]
    by simp
  with assms show ?thesis
    by (auto simp: link_short_name_def Let_def split: if_splits sum.splits)
qed

lemma emx_reduce_unbound: "''reduce'' \<notin> set emx_globals"
  by (simp add: emx_globals_def)

lemma posix_verylongname:
  "os_path_splitext posixpath (os_path_basename posixpath ''verylongname.dll'')
     = (''verylongname'', ''.dll'')"
  by (simp add: posixpath_def posix_basename_def posix_splitext_def Let_def)

text \<open>
  C1. The claim asks that a stem of more than 8 characters is replaced by the first 3
  characters of the basename and the decimal checksum. The module never imports
  \<^verbatim>\<open>reduce\<close>: for \<^verbatim>\<open>verylongname.dll\<close> line 93 raises \<^verbatim>\<open>NameError\<close>, and \<^verbatim>\<open>link\<close> with it,
  whatever its other arguments.
\<close>

theorem link_long_stem_name_error:
  "link_short_name emx_globals posixpath ''verylongname.dll'' = Inl (NameError ''reduce'')
   \<and> fst (link guard emx_globals posixpath X E self
             (rq\<lparr>output_filename := ''verylongname.dll''\<rparr>) w)
       = Inl (NameError ''reduce'')"
proof -
  have a: "link_short_name emx_globals posixpath ''verylongname.dll'' = Inl (NameError ''reduce'')"
    by (rule link_short_name_unbound) (simp_all add: posix_verylongname emx_reduce_unbound)
  show ?thesis
    by (simp add: a link_def link_prepare_def then_do_def copy_or_empty_def list_extend_def
        ret_def lift_exn_def)
qed

text \<open>
  C8. The claim asks that a longer stem is replaced by a name of 3 characters and at most
  5 digits. For \<^verbatim>\<open>build/pywin32ext.pyd\<close>, a stem of 10 characters, no short name is
  derived: the lookup of \<^verbatim>\<open>reduce\<close> fails.
\<close>

theorem link_short_name_undefined_for_long_stem:
  "link_short_name emx_globals posixpath ''build/pywin32ext.pyd'' = Inl (NameError ''reduce'')"
  by (simp add: link_short_name_def posixpath_def posix_basename_def posix_splitext_def Let_def
      emx_globals_def)


section \<open>Loading the module\<close>

text \<open>
  One bracket is still open where the header of lines 103 and 104 reaches its colon, so
  the module as shipped does not load: no method of it can be called before the header
  is repaired.
\<close>

lemma guard_header_open: "open_brackets guard_header 0 = Some 1"
  by (simp add: guard_header_def)

lemma import_emx_fails: "import_emx = Inl SyntaxError"
  by (simp add: import_emx_def guard_header_open)

section \<open>The stages of link\<close>

lemma link_prepare_eq:
  assumes "valid_ref w (libraries rq)" "valid_ref w (objects rq)"
  shows "link_prepare self rq w =
           (Inr (length (heap w), Suc (length (heap w)), Suc (Suc (length (heap w)))),
            prepared self rq w)"
  using assms
  by (simp add: link_prepare_def prepared_def then_do_def copy_or_empty_def list_extend_def
      ret_def caller_list_def valid_ref_def nth_append split: option.splits)

lemma prepared_simps:
  "trace (prepared self rq w) = trace w"
  "length (heap (prepared self rq w)) = length (heap w) + 3"
  "heap (prepared self rq w) ! length (heap w) = caller_list w (extra_preargs rq)"
  "heap (prepared self rq w) ! Suc (length (heap w)) =
     caller_list w (libraries rq) @ dll_libraries self"
  "heap (prepared self rq w) ! Suc (Suc (length (heap w))) = caller_list w (objects rq)"
  "r < length (heap w) \<Longrightarrow> heap (prepared self rq w) ! r = heap w ! r"
  by (simp_all add: prepared_def nth_append)

lemma link_unfold:
  assumes "valid_ref w (libraries rq)" "valid_ref w (objects rq)"
    and "link_short_name G P (output_filename rq) = Inr (dll_name, dll_extension, dll_name8)"
  shows "link guard G P X E self rq w =
     then_do (link_def_file guard P X E self rq dll_name dll_name8 (Suc (Suc (length (heap w)))))
       (\<lambda>_. link_finish P X rq (length (heap w)) (Suc (length (heap w)))
               (Suc (Suc (length (heap w)))) dll_name dll_extension dll_name8)
       (prepared self rq w)"
  unfolding link_def
  by (simp add: link_prepare_eq [OF assms(1,2)] assms(3) lift_exn_def then_do_def)

text \<open>
  A failure of line 93 ends the call before the condition of lines 103 and 104 is
  evaluated and before any external call.
\<close>

lemma link_name_fails:
  assumes "link_short_name G P (output_filename rq) = Inl e"
  shows "fst (link guard G P X E self rq w) = Inl e"
    and "trace (snd (link guard G P X E self rq w)) = trace w"
  unfolding link_def
  by (simp_all add: link_prepare_def then_do_def copy_or_empty_def list_extend_def ret_def
      assms lift_exn_def)

lemma link_def_file_skip:
  "link_def_file False P X E self rq dll_name dll_name8 objs = ret ()"
  by (simp add: link_def_file_def)

lemma link_def_file_empty:
  "heap w ! objs = [] \<Longrightarrow>
   link_def_file True P X E self rq dll_name dll_name8 objs w = (Inl IndexError, w)"
  by (simp add: link_def_file_def then_do_def list_first_def)

lemma link_def_file_write:
  assumes "export_symbols rq = Some symbols"
    and "heap w ! objs = first # others"
  shows "trace (snd (link_def_file True P X E self rq dll_name dll_name8 objs w)) =
     trace w @ [Write_file (os_path_join P (os_path_dirname P first) (dll_name @ ''.def''))
                  (def_file_contents E self dll_name dll_name8 symbols)]"
  using assms
  by (simp add: link_def_file_def then_do_def list_first_def execute_write_file_def answer_def
      log_def list_append_def list_extend_def Let_def split: option.splits)

lemma link_alias_actions:
  "\<exists>ts. trace (snd (link_alias X dll_name dll_extension dll_name8 out_name w)) = trace w @ ts
     \<and> set ts \<subseteq> {Remove out_name, Symlink (dll_name8 @ dll_extension) out_name}"
  by (simp add: link_alias_def then_do_def except_OSError_pass_def os_remove_def os_symlink_def
      answer_def log_def ret_def split: option.splits)

lemma link_finish_actions:
  assumes "pre \<noteq> objs"
  shows "\<exists>ls ps ts.
      trace (snd (link_finish P X rq pre libs objs dll_name dll_extension dll_name8 w)) =
        trace w @ Base_link (link_base_call P rq pre libs objs dll_extension dll_name8)
                    (heap w ! objs) ls ps # ts
      \<and> set ts \<subseteq> {Remove (output_filename rq),
                    Symlink (dll_name8 @ dll_extension) (output_filename rq)}"
proof -
  define c where "c = link_base_call P rq pre libs objs dll_extension dll_name8"
  define strip where "strip = (if \<not> debug rq then list_append pre ''-s'' else ret ())"
  have c_objs: "bc_objects c = objs"
    by (simp add: c_def link_base_call_def Let_def)
  obtain w1 where s: "strip w = (Inr (), w1)" and t1: "trace w1 = trace w"
    and h1: "heap w1 ! objs = heap w ! objs"
    using assms
    by (cases "debug rq") (simp_all add: strip_def list_append_def list_extend_def ret_def)
  obtain r w2 where b: "super_link X c w1 = (r, w2)" by (cases "super_link X c w1")
  then have t2: "trace w2 = trace w1 @ [Base_link c (heap w1 ! objs) (heap w1 ! bc_libraries c)
                                          (heap w1 ! bc_extra_preargs c)]"
    by (auto simp: super_link_def answer_def log_def c_objs split: option.splits)
  show ?thesis
  proof (cases r)
    case (Inl e)
    with s b t1 t2 h1 show ?thesis
      by (simp add: link_finish_def then_do_def c_def [symmetric] strip_def [symmetric])
  next
    case (Inr u)
    from link_alias_actions [of X dll_name dll_extension dll_name8 "output_filename rq" w2]
    obtain ts where
      "trace (snd (link_alias X dll_name dll_extension dll_name8 (output_filename rq) w2)) =
         trace w2 @ ts"
      and "set ts \<subseteq> {Remove (output_filename rq),
                      Symlink (dll_name8 @ dll_extension) (output_filename rq)}"
      by blast
    with Inr s b t1 t2 h1 show ?thesis
      by (simp add: link_finish_def then_do_def c_def [symmetric] strip_def [symmetric])
  qed
qed

lemma not_write_tail:
  "set ts \<subseteq> {Remove a, Symlink b c} \<Longrightarrow> filter is_Write_file ts = []"
  by (induction ts) auto

lemma not_link_tail:
  "set ts \<subseteq> {Remove a, Symlink b c} \<Longrightarrow> concat (map linked_objects ts) = []"
  by (induction ts) auto

section \<open>The definition file under a value of the condition\<close>

text \<open>
  What the statements of lines 105 to 146 do once the condition has a value. These
  facts are about every repair of the header; the module as shipped reaches none of
  them.
\<close>

lemma append_symbols_map:
  "append_symbols contents symbols =
     contents @ map (\<lambda>symbol. ''  '' @ [CHR 0x22] @ ''_'' @ symbol @ [CHR 0x22]) symbols"
  by (induction symbols arbitrary: contents) simp_all

text \<open>The lines that lines 130 to 139 put together.\<close>

lemma def_file_contents_lines:
  "def_file_contents E self dll_name dll_name8 symbols =
     [''LIBRARY '' @ dll_name8 @ '' INITINSTANCE TERMINSTANCE'',
      ''DESCRIPTION '' @ [CHR 0x22] @ ''@#''
        @ (case os_environ E ''VENDOR'' of
             None \<Rightarrow> ''python build system''
           | Some v \<Rightarrow> if v = [] then ''python build system'' else v)
        @ '':''
        @ (case version self of None \<Rightarrow> ''0.0'' | Some v \<Rightarrow> if v = [] then ''0.0'' else v)
        @ ''#@##1## '' @ now_strftime E @ ''     '' @ uname_host E
        @ ''::::0::@@'' @ dll_name @ [CHR 0x22],
      ''DATA MULTIPLE NONSHARED'',
      ''EXPORTS'']
     @ map (\<lambda>symbol. ''  '' @ [CHR 0x22] @ ''_'' @ symbol @ [CHR 0x22]) symbols"
  unfolding def_file_contents_def Let_def append_symbols_map truthy_or_def ..

text \<open>
  Where the condition holds, the short name is derived and a first object exists, the one
  file written is the definition file beside that object.
\<close>

lemma link_writes_def_file:
  assumes "export_symbols rq = Some symbols"
    and "link_short_name G P (output_filename rq) = Inr (dll_name, dll_extension, dll_name8)"
    and "caller_list w (objects rq) = first # others"
    and "valid_ref w (libraries rq)" and "valid_ref w (objects rq)"
  shows "filter is_Write_file (actions_since w (snd (link True G P X E self rq w))) =
     [Write_file (os_path_join P (os_path_dirname P first) (dll_name @ ''.def''))
        (def_file_contents E self dll_name dll_name8 symbols)]"
  (is "_ = [?write]")
proof -
  let ?n = "length (heap w)"
  let ?w1 = "prepared self rq w"
  let ?d = "link_def_file True P X E self rq dll_name dll_name8 (Suc (Suc ?n))"
  have l: "link True G P X E self rq w =
     then_do ?d (\<lambda>_. link_finish P X rq ?n (Suc ?n) (Suc (Suc ?n))
                        dll_name dll_extension dll_name8) ?w1"
    by (rule link_unfold [OF assms(4,5,2)])
  have h: "heap ?w1 ! Suc (Suc ?n) = first # others"
    by (simp add: prepared_simps assms(3))
  from link_def_file_write [OF assms(1) h, of P X E self dll_name dll_name8]
  have t2: "trace (snd (?d ?w1)) = trace w @ [?write]"
    by (simp add: prepared_simps)
  obtain r w2 where d: "?d ?w1 = (r, w2)" by (cases "?d ?w1")
  with t2 have t2': "trace w2 = trace w @ [?write]" by simp
  show ?thesis
  proof (cases r)
    case (Inl e)
    with d t2' show ?thesis by (simp add: l then_do_def actions_since_def)
  next
    case (Inr u)
    from link_finish_actions [of ?n "Suc (Suc ?n)" P X rq "Suc ?n" dll_name dll_extension
        dll_name8 w2]
    obtain k os ls ps ts where
      "trace (snd (link_finish P X rq ?n (Suc ?n) (Suc (Suc ?n))
                     dll_name dll_extension dll_name8 w2)) =
         trace w2 @ Base_link k os ls ps # ts"
      and ts: "set ts \<subseteq> {Remove (output_filename rq),
                          Symlink (dll_name8 @ dll_extension) (output_filename rq)}"
      by auto
    with Inr d t2' not_write_tail [OF ts] show ?thesis
      by (simp add: l then_do_def actions_since_def)
  qed
qed

text \<open>
  Where the condition holds and the short name is derived but there is no first object,
  line 113 raises \<^verbatim>\<open>IndexError\<close> before any external call.
\<close>

lemma link_no_first_object:
  assumes "link_short_name G P (output_filename rq) = Inr (dll_name, dll_extension, dll_name8)"
    and "caller_list w (objects rq) = []"
    and "valid_ref w (libraries rq)" and "valid_ref w (objects rq)"
  shows "fst (link True G P X E self rq w) = Inl IndexError"
    and "actions_since w (snd (link True G P X E self rq w)) = []"
proof -
  have "heap (prepared self rq w) ! Suc (Suc (length (heap w))) = []"
    by (simp add: prepared_simps assms(2))
  from link_def_file_empty [OF this]
  show "fst (link True G P X E self rq w) = Inl IndexError"
    and "actions_since w (snd (link True G P X E self rq w)) = []"
    by (simp_all add: link_unfold [OF assms(3,4,1)] then_do_def actions_since_def prepared_simps)
qed

text \<open>
  Where the condition fails, no file is written, and the base class's link, which is
  reached once the short name is derived, gets the caller's objects.
\<close>

lemma link_skips_def_file:
  assumes "valid_ref w (libraries rq)" and "valid_ref w (objects rq)"
  shows "filter is_Write_file (actions_since w (snd (link False G P X E self rq w))) = []
       \<and> concat (map linked_objects (actions_since w (snd (link False G P X E self rq w)))) =
           (case link_short_name G P (output_filename rq) of
              Inl e \<Rightarrow> []
            | Inr names \<Rightarrow> [caller_list w (objects rq)])"
proof (cases "link_short_name G P (output_filename rq)")
  case (Inl e)
  then show ?thesis
    by (simp add: actions_since_def link_name_fails(2))
next
  case (Inr t)
  then obtain dll_name dll_extension dll_name8
    where n: "link_short_name G P (output_filename rq) = Inr (dll_name, dll_extension, dll_name8)"
    by (cases t) auto
  let ?n = "length (heap w)"
  have l: "link False G P X E self rq w =
      link_finish P X rq ?n (Suc ?n) (Suc (Suc ?n)) dll_name dll_extension dll_name8
        (prepared self rq w)"
    by (simp add: link_unfold [OF assms n] link_def_file_skip then_do_def ret_def)
  from link_finish_actions [of ?n "Suc (Suc ?n)" P X rq "Suc ?n" dll_name dll_extension
      dll_name8 "prepared self rq w"]
  obtain ls ps ts where
    t: "trace (snd (link False G P X E self rq w)) =
          trace w @ Base_link (link_base_call P rq ?n (Suc ?n) (Suc (Suc ?n))
                                 dll_extension dll_name8)
                      (caller_list w (objects rq)) ls ps # ts"
    and ts: "set ts \<subseteq> {Remove (output_filename rq),
                        Symlink (dll_name8 @ dll_extension) (output_filename rq)}"
    unfolding l by (auto simp: prepared_simps)
  show ?thesis
    using not_write_tail [OF ts] not_link_tail [OF ts]
    by (simp add: actions_since_def t n)
qed

text \<open>The sample call and its run, with the condition taken to hold.\<close>

lemma sample_short_name:
  "link_short_name emx_globals posixpath ''build/short.dll'' = Inr (''short'', ''.dll'', ''short'')"
  by (simp add: link_short_name_def posixpath_def posix_basename_def posix_splitext_def Let_def)

lemma sample_request_facts:
  "export_symbols sample_request = Some [''initshort'']"
  "link_short_name emx_globals posixpath (output_filename sample_request)
     = Inr (''short'', ''.dll'', ''short'')"
  "caller_list sample_world (objects sample_request) = [''build/a.o'', ''build/b.o'']"
  "valid_ref sample_world (libraries sample_request)"
  "valid_ref sample_world (objects sample_request)"
  by (simp_all add: sample_request_def sample_world_def caller_list_def valid_ref_def
      sample_short_name)

lemma sample_def_path:
  "os_path_join posixpath (os_path_dirname posixpath ''build/a.o'') ''short.def''
     = ''build/short.def''"
  by (simp add: posixpath_def posix_join_def posix_dirname_def rstrip_def Let_def)

lemma link_sample_run:
  "link True emx_globals posixpath appending_linker sample_env unix_compiler sample_request
     sample_world =
     (Inr (),
      \<lparr> heap = [[''build/a.o'', ''build/b.o''], [''m''], [''-v''],
                 [''-v'', ''-s''], [''m''],
                 [''build/a.o'', ''build/b.o'', ''build/short.def'', ''crt0.o'']],
        trace =
          [Write_file ''build/short.def''
             (def_file_contents sample_env unix_compiler ''short'' ''short'' [''initshort'']),
           Base_link (link_base_call posixpath sample_request 3 4 5 ''.dll'' ''short'')
             [''build/a.o'', ''build/b.o'', ''build/short.def''] [''m''] [''-v'', ''-s'']] \<rparr>)"
proof -
  have p: "link_prepare unix_compiler sample_request sample_world =
       (Inr (3, 4, 5),
        sample_world \<lparr>heap := heap sample_world
                          @ [[''-v''], [''m''], [''build/a.o'', ''build/b.o'']]\<rparr>)"
    by (simp add: link_prepare_def then_do_def copy_or_empty_def list_extend_def ret_def
        sample_request_def sample_world_def unix_compiler_def)
  have d: "os_path_join posixpath (os_path_dirname posixpath ''build/a.o'') (''short'' @ ''.def'')
      = ''build/short.def''"
    by (simp add: sample_def_path)
  have n: "\<not> debug sample_request" "output_filename sample_request = ''build/short.dll''"
    by (simp_all add: sample_request_def)
  have o: "os_path_join posixpath (os_path_dirname posixpath ''build/short.dll'')
             (''short'' @ ''.dll'') = ''build/short.dll''"
    by (simp add: posixpath_def posix_join_def posix_dirname_def rstrip_def Let_def)
  show ?thesis
    unfolding link_def
    apply (simp add: then_do_def p sample_request_facts(1) sample_short_name lift_exn_def
        link_def_file_def list_first_def d execute_write_file_def answer_def log_def quiet_def
        appending_linker_def list_append_def list_extend_def link_finish_def super_link_def
        link_alias_def ret_def n link_base_call_def Let_def o)
    apply (simp add: sample_world_def ret_def sample_def_path)
    done
qed

section \<open>The definition file of the module as written\<close>

lemma long_request_name_fails:
  "link_short_name emx_globals posixpath (output_filename long_request)
     = Inl (NameError ''reduce'')"
  "link_short_name emx_globals posixpath (output_filename long_request_no_objects)
     = Inl (NameError ''reduce'')"
  by (simp_all add: long_request_def long_request_no_objects_def link_short_name_def
      posixpath_def posix_basename_def posix_splitext_def Let_def emx_globals_def)

lemma long_request_facts:
  "export_symbols long_request = Some [''initshort'']"
  "target_desc long_request \<noteq> EXECUTABLE unix_compiler"
  "caller_list sample_world (objects long_request) = [''build/a.o'', ''build/b.o'']"
  "export_symbols long_request_no_objects = Some [''initshort'']"
  "target_desc long_request_no_objects \<noteq> EXECUTABLE unix_compiler"
  "caller_list sample_world (objects long_request_no_objects) = []"
  by (simp_all add: long_request_def long_request_no_objects_def sample_request_def
      sample_world_def unix_compiler_def caller_list_def)

text \<open>
  C2. The claim asks that a call with export symbols and a target kind other than the
  executable synthesizes a definition file whose first line names the derived short
  stem. For the shared library \<^verbatim>\<open>build/verylongname.dll\<close> with one export and two objects
  no definition file comes about: the module as shipped raises \<^verbatim>\<open>SyntaxError\<close> when it
  is loaded, and for either value of the condition of lines 103 and 104 the call raises
  \<^verbatim>\<open>NameError\<close> at line 93 and makes no external call.
\<close>

theorem link_long_stem_writes_no_def_file:
  "import_emx = Inl SyntaxError
   \<and> export_symbols long_request = Some [''initshort'']
   \<and> target_desc long_request \<noteq> EXECUTABLE unix_compiler
   \<and> caller_list sample_world (objects long_request) = [''build/a.o'', ''build/b.o'']
   \<and> fst (link guard emx_globals posixpath X E unix_compiler long_request sample_world)
       = Inl (NameError ''reduce'')
   \<and> actions_since sample_world
        (snd (link guard emx_globals posixpath X E unix_compiler long_request sample_world))
       = []"
  by (simp add: import_emx_fails long_request_facts
      link_name_fails [OF long_request_name_fails(1)] actions_since_def)

text \<open>
  C10. The claim asks that a call with export symbols, a target kind other than the
  executable and no objects fails at the indexing step of line 113. For the shared
  library \<^verbatim>\<open>build/verylongname.dll\<close> with one export and no objects the failure is
  another and earlier: \<^verbatim>\<open>SyntaxError\<close> when the module as shipped is loaded, and for
  either value of the condition of lines 103 and 104 the \<^verbatim>\<open>NameError\<close> of line 93.
\<close>

theorem link_long_stem_fails_before_indexing:
  "import_emx = Inl SyntaxError
   \<and> export_symbols long_request_no_objects = Some [''initshort'']
   \<and> target_desc long_request_no_objects \<noteq> EXECUTABLE unix_compiler
   \<and> caller_list sample_world (objects long_request_no_objects) = []
   \<and> fst (link guard emx_globals posixpath X E unix_compiler long_request_no_objects
             sample_world)
       = Inl (NameError ''reduce'')
   \<and> fst (link guard emx_globals posixpath X E unix_compiler long_request_no_objects
             sample_world)
       \<noteq> Inl IndexError"
  by (simp add: import_emx_fails long_request_facts
      link_name_fails [OF long_request_name_fails(2)])

section \<open>The caller's lists\<close>

lemma link_prepare_frame:
  "\<exists>w1. link_prepare self rq w =
           (Inr (length (heap w), Suc (length (heap w)), Suc (Suc (length (heap w)))), w1)
        \<and> length (heap w1) = length (heap w) + 3
        \<and> trace w1 = trace w
        \<and> (\<forall>r < length (heap w). heap w1 ! r = heap w ! r)"
  by (simp add: link_prepare_def then_do_def copy_or_empty_def list_extend_def ret_def
      nth_append)

lemma link_def_file_frame:
  "length (heap (snd (link_def_file guard P X E self rq dll_name dll_name8 objs w)))
     = length (heap w)
   \<and> (\<forall>r. r \<noteq> objs \<longrightarrow>
         heap (snd (link_def_file guard P X E self rq dll_name dll_name8 objs w)) ! r
           = heap w ! r)"
  by (simp add: link_def_file_def then_do_def list_first_def execute_write_file_def answer_def
      log_def list_append_def list_extend_def Let_def ret_def lift_exn_def
      split: option.splits list.splits)

lemma link_alias_heap:
  "heap (snd (link_alias X dll_name dll_extension dll_name8 out_name w)) = heap w"
  by (simp add: link_alias_def then_do_def except_OSError_pass_def os_remove_def os_symlink_def
      answer_def log_def ret_def split: option.splits)

lemma link_finish_frame:
  assumes frame: "\<And>w c r. r < length (heap w) \<Longrightarrow> r \<noteq> bc_objects c \<Longrightarrow> r \<noteq> bc_libraries c
              \<Longrightarrow> r \<noteq> bc_extra_preargs c \<Longrightarrow> snd (x_base_link X w c) ! r = heap w ! r"
    and "r < length (heap w)" "r \<noteq> pre" "r \<noteq> libs" "r \<noteq> objs"
  shows "heap (snd (link_finish P X rq pre libs objs dll_name dll_extension dll_name8 w)) ! r
           = heap w ! r"
proof -
  define c where "c = link_base_call P rq pre libs objs dll_extension dll_name8"
  define strip where "strip = (if \<not> debug rq then list_append pre ''-s'' else ret ())"
  have c_refs: "bc_objects c = objs" "bc_libraries c = libs" "bc_extra_preargs c = pre"
    by (simp_all add: c_def link_base_call_def Let_def)
  obtain w1 where s: "strip w = (Inr (), w1)" and l1: "length (heap w1) = length (heap w)"
    and h1: "heap w1 ! r = heap w ! r"
    using assms(3)
    by (cases "debug rq") (simp_all add: strip_def list_append_def list_extend_def ret_def)
  obtain a w2 where b: "super_link X c w1 = (a, w2)" by (cases "super_link X c w1")
  then have "heap w2 = snd (x_base_link X w1 c)"
    by (auto simp: super_link_def answer_def log_def split: option.splits)
  with frame [of r w1 c] assms(2-5) l1 h1 have h2: "heap w2 ! r = heap w ! r"
    by (simp add: c_refs)
  show ?thesis
    using s b h2
    by (cases a) (simp_all add: link_finish_def then_do_def c_def [symmetric]
        strip_def [symmetric] link_alias_heap)
qed

text \<open>
  C9. \<^verbatim>\<open>link\<close> changes no list that exists when it is called, so the caller's objects,
  libraries and extra pre-arguments are as before when it returns or raises: the
  additional libraries, the \<^verbatim>\<open>.def\<close> path and \<^verbatim>\<open>-s\<close> go to the three copies. This holds
  for either value of the condition of lines 103 and 104. The base class's link is
  assumed to write to no list but the three working lists it is handed.
\<close>

theorem link_leaves_caller_lists:
  assumes frame: "\<And>w c r. r < length (heap w) \<Longrightarrow> r \<noteq> bc_objects c \<Longrightarrow> r \<noteq> bc_libraries c
              \<Longrightarrow> r \<noteq> bc_extra_preargs c \<Longrightarrow> snd (x_base_link X w c) ! r = heap w ! r"
    and r: "r < length (heap w)"
  shows "heap (snd (link guard G P X E self rq w)) ! r = heap w ! r"
proof -
  let ?n = "length (heap w)"
  from link_prepare_frame [of self rq w] obtain w1 where
    p: "link_prepare self rq w = (Inr (?n, Suc ?n, Suc (Suc ?n)), w1)"
    and l1: "length (heap w1) = ?n + 3" and h1: "heap w1 ! r = heap w ! r"
    using r by blast
  show ?thesis
  proof (cases "link_short_name G P (output_filename rq)")
    case (Inl e)
    with p h1 show ?thesis
      by (simp add: link_def then_do_def lift_exn_def)
  next
    case (Inr t)
    obtain dll_name dll_extension dll_name8 where t: "t = (dll_name, dll_extension, dll_name8)"
      by (cases t) auto
    let ?d = "link_def_file guard P X E self rq dll_name dll_name8 (Suc (Suc ?n))"
    obtain a w2 where d: "?d w1 = (a, w2)" by (cases "?d w1")
    from link_def_file_frame [of guard P X E self rq dll_name dll_name8 "Suc (Suc ?n)" w1] d r
    have l2: "length (heap w2) = ?n + 3" and h2: "heap w2 ! r = heap w1 ! r"
      by (simp_all add: l1)
    have l: "link guard G P X E self rq w =
        then_do ?d (\<lambda>_. link_finish P X rq ?n (Suc ?n) (Suc (Suc ?n))
                           dll_name dll_extension dll_name8) w1"
      by (simp add: link_def then_do_def p Inr t lift_exn_def)
    show ?thesis
    proof (cases a)
      case (Inl e)
      with d h1 h2 show ?thesis by (simp add: l then_do_def)
    next
      case (Inr u)
      have "heap (snd (link_finish P X rq ?n (Suc ?n) (Suc (Suc ?n))
                         dll_name dll_extension dll_name8 w2)) ! r = heap w2 ! r"
        by (rule link_finish_frame [OF frame]) (use r l2 in simp_all)
      with Inr d h1 h2 show ?thesis by (simp add: l then_do_def)
    qed
  qed
qed

lemma appending_linker_frame:
  "r \<noteq> bc_objects c \<Longrightarrow> snd (x_base_link appending_linker w c) ! r = heap w ! r"
  by (simp add: appending_linker_def quiet_def)

text \<open>
  In the sample run the base class appends to its object list, which is the copy at
  reference 5 (see \<open>link_sample_run\<close>); the caller's three lists stay as they were.
\<close>

theorem link_leaves_caller_lists_witness:
  "heap (snd (link True emx_globals posixpath appending_linker sample_env unix_compiler
                sample_request sample_world))
     ! 0 = [''build/a.o'', ''build/b.o'']
   \<and> heap (snd (link True emx_globals posixpath appending_linker sample_env unix_compiler
                sample_request sample_world))
     ! 1 = [''m'']
   \<and> heap (snd (link True emx_globals posixpath appending_linker sample_env unix_compiler
                sample_request sample_world))
     ! 2 = [''-v'']"
  using link_leaves_caller_lists [of appending_linker 0 sample_world]
    link_leaves_caller_lists [of appending_linker 1 sample_world]
    link_leaves_caller_lists [of appending_linker 2 sample_world]
  by (simp add: appending_linker_frame sample_world_def)

section \<open>The alias to the long name\<close>

text \<open>
  The statements of lines 167 to 173 on their own: they run only for a stem of more than
  8 characters, and there every \<^verbatim>\<open>OSError\<close> of the removal is passed over and the symlink
  is made; a failure of the removal that is no \<^verbatim>\<open>OSError\<close> ends the stage.
\<close>

lemma link_alias_cases:
  "link_alias X dll_name dll_extension dll_name8 out_name w =
     (if length dll_name > 8 then
        (case x_remove X w out_name of
           None \<Rightarrow> os_symlink X (dll_name8 @ dll_extension) out_name (log (Remove out_name) w)
         | Some e \<Rightarrow>
             if is_OSError e
             then os_symlink X (dll_name8 @ dll_extension) out_name (log (Remove out_name) w)
             else (Inl e, log (Remove out_name) w))
      else (Inr (), w))"
  by (simp add: link_alias_def then_do_def except_OSError_pass_def os_remove_def answer_def
      ret_def split: option.splits)

lemma link_alias_refused_removal:
  "link_alias denied ''verylongname'' ''.dll'' ''ver1665'' ''verylongname.dll'' empty_world =
     (Inr (), \<lparr> heap = [], trace = [Remove ''verylongname.dll'',
                                       Symlink ''ver1665.dll'' ''verylongname.dll''] \<rparr>)"
  "link_alias in_use ''verylongname'' ''.dll'' ''ver1665'' ''verylongname.dll'' empty_world =
     (Inl (OSError EEXIST),
      \<lparr> heap = [], trace = [Remove ''verylongname.dll'',
                             Symlink ''ver1665.dll'' ''verylongname.dll''] \<rparr>)"
  "link_alias null_byte ''verylongname'' ''.dll'' ''ver1665'' ''verylongname.dll'' empty_world =
     (Inl ValueError, \<lparr> heap = [], trace = [Remove ''verylongname.dll''] \<rparr>)"
  by (simp_all add: link_alias_def then_do_def except_OSError_pass_def os_remove_def
      os_symlink_def answer_def log_def denied_def in_use_def null_byte_def quiet_def
      empty_world_def)

text \<open>
  In the namespace of the module a short name comes about only for a stem of at most 8
  characters, so no call of \<^verbatim>\<open>link\<close> gets to the removal or to the symlink, for either
  value of the condition of lines 103 and 104.
\<close>

lemma emx_short_name_is_stem:
  assumes "link_short_name emx_globals P out_name = Inr (dll_name, dll_extension, dll_name8)"
  shows "length dll_name \<le> 8" and "dll_name8 = dll_name"
  using assms emx_reduce_unbound
  by (auto simp: link_short_name_def Let_def split: if_splits)

lemma link_def_file_actions:
  "\<exists>ts. trace (snd (link_def_file guard P X E self rq dll_name dll_name8 objs w)) = trace w @ ts
     \<and> filter is_Write_file ts = ts"
  by (simp add: link_def_file_def then_do_def list_first_def execute_write_file_def answer_def
      log_def list_append_def list_extend_def Let_def ret_def lift_exn_def
      split: option.splits list.splits)

lemma link_finish_short_stem:
  assumes "length dll_name \<le> 8"
  shows "\<exists>c os ls ps.
      trace (snd (link_finish P X rq pre libs objs dll_name dll_extension dll_name8 w)) =
        trace w @ [Base_link c os ls ps]"
  using assms
  by (simp add: link_finish_def link_alias_def then_do_def super_link_def answer_def log_def
      list_append_def list_extend_def ret_def split: option.splits)

lemma link_emx_never_aliases:
  "Remove path \<notin> set (actions_since w (snd (link guard emx_globals P X E self rq w)))"
  "Symlink src dst \<notin> set (actions_since w (snd (link guard emx_globals P X E self rq w)))"
proof -
  let ?n = "length (heap w)"
  let ?acts = "actions_since w (snd (link guard emx_globals P X E self rq w))"
  have "\<forall>a \<in> set ?acts. is_Write_file a \<or> linked_objects a \<noteq> []"
  proof (cases "link_short_name emx_globals P (output_filename rq)")
    case (Inl e)
    then show ?thesis by (simp add: actions_since_def link_name_fails(2))
  next
    case (Inr t)
    obtain dll_name dll_extension dll_name8 where t: "t = (dll_name, dll_extension, dll_name8)"
      by (cases t) auto
    with Inr have short: "length dll_name \<le> 8" by (simp add: emx_short_name_is_stem(1))
    from link_prepare_frame [of self rq w] obtain w1 where
      p: "link_prepare self rq w = (Inr (?n, Suc ?n, Suc (Suc ?n)), w1)"
      and t1: "trace w1 = trace w"
      by blast
    let ?d = "link_def_file guard P X E self rq dll_name dll_name8 (Suc (Suc ?n))"
    obtain a w2 where d: "?d w1 = (a, w2)" by (cases "?d w1")
    from link_def_file_actions [of guard P X E self rq dll_name dll_name8 "Suc (Suc ?n)" w1] d t1
    obtain ts where t2: "trace w2 = trace w @ ts" and ts: "filter is_Write_file ts = ts"
      by auto
    from ts have wr: "\<forall>a \<in> set ts. is_Write_file a"
      by (metis filter_id_conv)
    have l: "link guard emx_globals P X E self rq w =
        then_do ?d (\<lambda>_. link_finish P X rq ?n (Suc ?n) (Suc (Suc ?n))
                           dll_name dll_extension dll_name8) w1"
      by (simp add: link_def then_do_def p Inr t lift_exn_def)
    show ?thesis
    proof (cases a)
      case (Inl e)
      with d t2 wr show ?thesis by (simp add: l then_do_def actions_since_def)
    next
      case (Inr u)
      from link_finish_short_stem [OF short, of P X rq ?n "Suc ?n" "Suc (Suc ?n)"
          dll_extension dll_name8 w2]
      obtain c os ls ps where
        "trace (snd (link_finish P X rq ?n (Suc ?n) (Suc (Suc ?n))
                       dll_name dll_extension dll_name8 w2)) = trace w2 @ [Base_link c os ls ps]"
        by blast
      with Inr d t2 wr show ?thesis by (auto simp: l then_do_def actions_since_def)
    qed
  qed
  then show "Remove path \<notin> set ?acts" and "Symlink src dst \<notin> set ?acts"
    by auto
qed

end
